theory Spec2Isabelle
  imports Main "HOL-Library.AList"
begin

section \<open>Python values\<close>

text \<open>
  A Python \<open>str\<close> is modelled as the list of its code points, taken below 256, so that
  one \<open>char\<close> is one code point. Python integers are unbounded: \<open>int\<close>; the limit
  that an interpreter may set on the length of a decimal conversion is not modelled.
  A Python \<open>dict\<close> with string keys is an association list read with \<open>map_of\<close>.
\<close>

type_synonym pydict = "(string \<times> string) list"

text \<open>
  The values that reach the \<open>int(...)\<close> conversion: a JSON scalar of the token response,
  or a string read from the cache. Floats and containers are outside the model.
\<close>

datatype pyval = PyNone | PyBool bool | PyInt int | PyStr string

subsection \<open>\<open>str(n)\<close> for an integer\<close>

definition digit_char :: "nat \<Rightarrow> char" where
  "digit_char d = char_of (48 + d)"

function dec_digits :: "nat \<Rightarrow> string" where
  "dec_digits n = (if n < 10 then [digit_char n] else dec_digits (n div 10) @ [digit_char (n mod 10)])"
  by pat_completeness auto
termination
  by (relation "measure id") auto

declare dec_digits.simps [simp del]

definition py_str :: "int \<Rightarrow> string" where
  "py_str n = (if n < 0 then CHR ''-'' # dec_digits (nat (- n)) else dec_digits (nat n))"

subsection \<open>\<open>int(s)\<close> for a string\<close>

text \<open>
  The builtin skips white space on both sides (the ASCII white space, and the code points
  \<open>0x85\<close> and \<open>0xA0\<close>), reads one optional sign, and then wants decimal digits, where
  single underscores may stand between two digits. Anything else is a \<open>ValueError\<close>.
\<close>

definition is_space :: "char \<Rightarrow> bool" where
  "is_space c = (let n = (of_char c :: nat) in (9 \<le> n \<and> n \<le> 13) \<or> n = 32 \<or> n = 133 \<or> n = 160)"

definition is_digit :: "char \<Rightarrow> bool" where
  "is_digit c = (let n = (of_char c :: nat) in 48 \<le> n \<and> n \<le> 57)"

definition digit_value :: "char \<Rightarrow> nat" where
  "digit_value c = of_char c - 48"

text \<open>\<open>digit_groups prev s\<close>: \<open>prev\<close> says that the character before \<open>s\<close> was a digit.\<close>

fun digit_groups :: "bool \<Rightarrow> string \<Rightarrow> bool" where
  "digit_groups prev [] = prev"
| "digit_groups prev (c # cs) =
     (if is_digit c then digit_groups True cs
      else if c = CHR ''_'' \<and> prev then digit_groups False cs
      else False)"

definition digits_value :: "string \<Rightarrow> nat" where
  "digits_value s = foldl (\<lambda>acc c. 10 * acc + digit_value c) 0 s"

definition strip :: "string \<Rightarrow> string" where
  "strip s = rev (dropWhile is_space (rev (dropWhile is_space s)))"

definition split_sign :: "string \<Rightarrow> bool \<times> string" where
  "split_sign s =
     (case s of
        [] \<Rightarrow> (False, [])
      | c # r \<Rightarrow> if c = CHR ''-'' then (True, r) else if c = CHR ''+'' then (False, r) else (False, s))"

definition int_of_str :: "string \<Rightarrow> int option" where
  "int_of_str s =
     (let (neg, body) = split_sign (strip s) in
      if digit_groups False body
      then (let v = int (digits_value (filter (\<lambda>c. c \<noteq> CHR ''_'') body)) in
            Some (if neg then - v else v))
      else None)"

section \<open>Responses and errors\<close>

text \<open>
  The JSON object of a token response, as far as \<open>fresh_token\<close> reads it: a member that
  is missing is \<open>None\<close>. \<open>access_token\<close> and \<open>token_type\<close> are passed on without being
  inspected, and the model takes them to be JSON strings; \<open>expires_in\<close> is converted by the
  token's constructor and may be any scalar of \<open>pyval\<close>.
\<close>

record token_json =
  j_access_token :: "string option"
  j_expires_in :: "pyval option"
  j_token_type :: "string option"

text \<open>
  A response of the token endpoint: \<open>json_body\<close> is what \<open>response.json()\<close> returns,
  \<open>None\<close> when the body is not JSON and the call raises. A body that is JSON but not
  an object is outside the model.
\<close>

record http_response =
  status_code :: int
  body_text :: string
  json_body :: "token_json option"

text \<open>Every exception the program can end with is a value; \<open>Inl\<close> carries it.\<close>

datatype error =
    Timeout
  | ConnectionError
  | HTTPError http_response
  | JSONDecodeError
  | KeyError string
  | ValueError
  | TypeError

definition and_then :: "error + 'a \<Rightarrow> ('a \<Rightarrow> error + 'b) \<Rightarrow> error + 'b" where
  "and_then r f = (case r of Inl e \<Rightarrow> Inl e | Inr v \<Rightarrow> f v)"

definition py_int :: "pyval \<Rightarrow> error + int" where
  "py_int v =
     (case v of
        PyNone \<Rightarrow> Inl TypeError
      | PyBool b \<Rightarrow> Inr (if b then 1 else 0)
      | PyInt n \<Rightarrow> Inr n
      | PyStr s \<Rightarrow> (case int_of_str s of None \<Rightarrow> Inl ValueError | Some n \<Rightarrow> Inr n))"

text \<open>\<open>d[k]\<close> on a dict: the value, or \<open>KeyError\<close>.\<close>

definition getitem :: "pydict \<Rightarrow> string \<Rightarrow> error + string" where
  "getitem d k = (case map_of d k of None \<Rightarrow> Inl (KeyError k) | Some v \<Rightarrow> Inr v)"

definition member :: "string \<Rightarrow> 'a option \<Rightarrow> error + 'a" where
  "member k m = (case m of None \<Rightarrow> Inl (KeyError k) | Some v \<Rightarrow> Inr v)"

section \<open>Token\<close>

text \<open>
  Modelled from the spec: the class \<open>Token\<close> of \<open>oauth_token_cache/token.py\<close>, which
  \<open>token_client.py\<close> imports. Its four attributes are \<open>access_token\<close> (string),
  \<open>expires_in\<close> (integer), \<open>token_type\<close> (string) and \<open>audience\<close> (string).
\<close>

record Token =
  access_token :: string
  expires_in :: int
  token_type :: string
  audience :: string

text \<open>
  Modelled from the spec: the constructor of \<open>Token\<close>. It validates nothing but converts
  \<open>expires_in\<close> to an integer, and fails when that value is not convertible.
\<close>

definition Token_init :: "string \<Rightarrow> pyval \<Rightarrow> string \<Rightarrow> string \<Rightarrow> error + Token" where
  "Token_init a e ty aud =
     and_then (py_int e)
       (\<lambda>n. Inr \<lparr>access_token = a, expires_in = n, token_type = ty, audience = aud\<rparr>)"

text \<open>
  Modelled from the spec: the method \<open>asdict\<close> of \<open>Token\<close>. It gives the four fields
  under their names as strings, \<open>expires_in\<close> in its decimal representation.
\<close>

definition asdict :: "Token \<Rightarrow> pydict" where
  "asdict t =
     [(''access_token'', access_token t),
      (''expires_in'', py_str (expires_in t)),
      (''token_type'', token_type t),
      (''audience'', Token.audience t)]"

section \<open>The cache store\<close>

text \<open>
  The Redis client is the caller's; the model keeps what the program uses of it. A key holds
  a hash (field to string value) and a time to live; the client returns strings.
  \<open>HMSET\<close> sets the given fields and keeps the others and the time to live; \<open>EXPIRE\<close>
  of a missing key does nothing, with a time that is not positive it deletes the key, and
  otherwise it sets the time to live; \<open>HGETALL\<close> of a missing key is the empty dict.
\<close>

record redis_entry =
  hash_fields :: pydict
  ttl :: "int option"

type_synonym redis_store = "string \<Rightarrow> redis_entry option"

datatype redis_cmd = HGETALL string | HMSET string pydict | EXPIRE string int

definition hset :: "pydict \<Rightarrow> pydict \<Rightarrow> pydict" where
  "hset mapping h = fold (\<lambda>(f, v). AList.update f v) mapping h"

fun exec_cmd :: "redis_cmd \<Rightarrow> redis_store \<Rightarrow> redis_store" where
  "exec_cmd (HGETALL k) s = s"
| "exec_cmd (HMSET k mapping) s =
     (case s k of
        None \<Rightarrow> s(k \<mapsto> \<lparr>hash_fields = hset mapping [], ttl = None\<rparr>)
      | Some e \<Rightarrow> s(k \<mapsto> e\<lparr>hash_fields := hset mapping (hash_fields e)\<rparr>))"
| "exec_cmd (EXPIRE k n) s =
     (case s k of
        None \<Rightarrow> s
      | Some e \<Rightarrow> if n \<le> 0 then s(k := None) else s(k \<mapsto> e\<lparr>ttl := Some n\<rparr>))"

section \<open>The token endpoint\<close>

text \<open>
  What \<open>requests.post\<close> is called with. The model covers the call as the program makes
  it, with redirects not followed: the response is the endpoint's own answer.
\<close>

record http_request =
  req_method :: string
  req_url :: string
  req_json :: pydict
  req_allow_redirects :: bool
  req_timeout :: int

section \<open>The world of the two collaborators\<close>

text \<open>
  \<open>redis_log\<close> holds one entry for each round trip to the store: the commands sent in it,
  executed as one unit. \<open>http_log\<close> holds the requests sent. \<open>endpoint\<close> is the token
  endpoint: its answer to a request, or the exception \<open>requests.post\<close> ends with.
\<close>

record world =
  redis :: redis_store
  redis_log :: "redis_cmd list list"
  endpoint :: "http_request \<Rightarrow> error + http_response"
  http_log :: "http_request list"

definition hgetall :: "string \<Rightarrow> world \<Rightarrow> pydict \<times> world" where
  "hgetall k w =
     ((case redis w k of None \<Rightarrow> [] | Some e \<Rightarrow> hash_fields e),
      w\<lparr>redis_log := redis_log w @ [[HGETALL k]]\<rparr>)"

text \<open>A pipeline buffers its commands; \<open>execute\<close> sends them as one transaction.\<close>

type_synonym pipeline = "redis_cmd list"

definition pipeline_hmset :: "string \<Rightarrow> pydict \<Rightarrow> pipeline \<Rightarrow> pipeline" where
  "pipeline_hmset k mapping p = p @ [HMSET k mapping]"

definition pipeline_expire :: "string \<Rightarrow> int \<Rightarrow> pipeline \<Rightarrow> pipeline" where
  "pipeline_expire k n p = p @ [EXPIRE k n]"

definition pipeline_execute :: "pipeline \<Rightarrow> world \<Rightarrow> world" where
  "pipeline_execute p w = w\<lparr>redis := fold exec_cmd p (redis w), redis_log := redis_log w @ [p]\<rparr>"

definition requests_post ::
  "string \<Rightarrow> pydict \<Rightarrow> bool \<Rightarrow> int \<Rightarrow> world \<Rightarrow> (error + http_response) \<times> world" where
  "requests_post url payload allow_redirects tmo w =
     (let req = \<lparr>req_method = ''POST'', req_url = url, req_json = payload,
                 req_allow_redirects = allow_redirects, req_timeout = tmo\<rparr>
      in (endpoint w req, w\<lparr>http_log := http_log w @ [req]\<rparr>))"

text \<open>\<open>raise_for_status\<close> raises for the client errors and for the server errors only.\<close>

definition raise_for_status :: "http_response \<Rightarrow> error + unit" where
  "raise_for_status r =
     (if 400 \<le> status_code r \<and> status_code r < 500 then Inl (HTTPError r)
      else if 500 \<le> status_code r \<and> status_code r < 600 then Inl (HTTPError r)
      else Inr ())"

definition response_json :: "http_response \<Rightarrow> error + token_json" where
  "response_json r = (case json_body r of None \<Rightarrow> Inl JSONDecodeError | Some b \<Rightarrow> Inr b)"

section \<open>TokenClient\<close>

text \<open>
  The configuration, with the strings the docstring names; the timeout is in whole
  seconds. The Redis client the object holds is the store of the world.
\<close>

record TokenClient =
  client_id :: string
  client_secret :: string
  token_url :: string
  audience :: string
  timeout :: int

text \<open>
  \<^verbatim>\<open>
  def __init__(self, client_id=None, client_secret=None, token_url=None,
               redis_client=None, audience=None, **kwargs):
      self.client_id = client_id
      self.client_secret = client_secret
      self.token_url = token_url
      self.redis_client = redis_client
      self.audience = audience
      self.timeout = kwargs.get("timeout", 5)
  \<close>
\<close>

text \<open>The constructor: \<open>kwargs\<close> are the keyword arguments it does not name.\<close>

definition TokenClient_init ::
  "string \<Rightarrow> string \<Rightarrow> string \<Rightarrow> string \<Rightarrow> (string \<times> int) list \<Rightarrow> TokenClient" where
  "TokenClient_init cid secret url aud kwargs =
     \<lparr>client_id = cid, client_secret = secret, token_url = url, audience = aud,
      timeout = (case map_of kwargs ''timeout'' of None \<Rightarrow> 5 | Some v \<Rightarrow> v)\<rparr>"

text \<open>
  \<^verbatim>\<open>
  @property
  def cache_key(self):
      return "oauth_token_cache__{client_id}_{audience}".format(
          client_id=self.client_id, audience=self.audience)
  \<close>
\<close>

definition cache_key :: "TokenClient \<Rightarrow> string" where
  "cache_key c = ''oauth_token_cache__'' @ client_id c @ ''_'' @ TokenClient.audience c"

text \<open>
  \<^verbatim>\<open>
  def cache_token(self, token):
      pipeline = self.redis_client.pipeline()
      pipeline.hmset(self.cache_key, token.asdict())
      pipeline.expire(self.cache_key, token.expires_in)
      pipeline.execute()
      return token
  \<close>
\<close>

definition cache_token :: "TokenClient \<Rightarrow> Token \<Rightarrow> world \<Rightarrow> Token \<times> world" where
  "cache_token c token w =
     (let p0 = [];
          p1 = pipeline_hmset (cache_key c) (asdict token) p0;
          p2 = pipeline_expire (cache_key c) (expires_in token) p1
      in (token, pipeline_execute p2 w))"

text \<open>
  \<^verbatim>\<open>
  def cached_token(self):
      values = self.redis_client.hgetall(self.cache_key)
      if not values:
          return None
      return Token(
          values["access_token"],
          int(values["expires_in"]),
          values["token_type"],
          values["audience"],
      )
  \<close>
  The arguments are evaluated from left to right, so the first failing one decides the
  exception.
\<close>

definition cached_token :: "TokenClient \<Rightarrow> world \<Rightarrow> (error + Token option) \<times> world" where
  "cached_token c w =
     (let (values, w1) = hgetall (cache_key c) w in
      if values = [] then (Inr None, w1)
      else
        (and_then (getitem values ''access_token'') (\<lambda>a.
         and_then (getitem values ''expires_in'') (\<lambda>x.
         and_then (py_int (PyStr x)) (\<lambda>n.
         and_then (getitem values ''token_type'') (\<lambda>ty.
         and_then (getitem values ''audience'') (\<lambda>aud.
         and_then (Token_init a (PyInt n) ty aud) (\<lambda>t. Inr (Some t))))))),
         w1))"

text \<open>
  \<^verbatim>\<open>
  def fresh_token(self):
      payload = {
          "grant_type": "client_credentials",
          "client_id": self.client_id,
          "client_secret": self.client_secret,
          "audience": self.audience,
      }
      response = requests.post(
          self.token_url, json=payload, allow_redirects=False, timeout=self.timeout
      )
      response.raise_for_status()
      response = response.json()
      token = Token(
          access_token=response["access_token"],
          expires_in=response["expires_in"],
          token_type=response["token_type"],
          audience=self.audience,
      )
      return self.cache_token(token)
  \<close>
\<close>

definition fresh_token :: "TokenClient \<Rightarrow> world \<Rightarrow> (error + Token) \<times> world" where
  "fresh_token c w =
     (let payload =
            [(''grant_type'', ''client_credentials''),
             (''client_id'', client_id c),
             (''client_secret'', client_secret c),
             (''audience'', TokenClient.audience c)];
          (r, w1) = requests_post (token_url c) payload False (timeout c) w;
          made =
            and_then r (\<lambda>response.
            and_then (raise_for_status response) (\<lambda>_.
            and_then (response_json response) (\<lambda>body.
            and_then (member ''access_token'' (j_access_token body)) (\<lambda>a.
            and_then (member ''expires_in'' (j_expires_in body)) (\<lambda>e.
            and_then (member ''token_type'' (j_token_type body)) (\<lambda>ty.
            Token_init a e ty (TokenClient.audience c)))))))
      in case made of
           Inl err \<Rightarrow> (Inl err, w1)
         | Inr token \<Rightarrow> (let (t, w2) = cache_token c token w1 in (Inr t, w2)))"

text \<open>The request that \<open>fresh_token\<close> hands to \<open>requests.post\<close>, under one name.\<close>

definition token_request :: "TokenClient \<Rightarrow> http_request" where
  "token_request c =
     \<lparr>req_method = ''POST'', req_url = token_url c,
      req_json =
        [(''grant_type'', ''client_credentials''),
         (''client_id'', client_id c),
         (''client_secret'', client_secret c),
         (''audience'', TokenClient.audience c)],
      req_allow_redirects = False, req_timeout = timeout c\<rparr>"

section \<open>Concrete inputs\<close>

definition example_client :: TokenClient where
  "example_client =
     TokenClient_init ''client1'' ''s3cret'' ''https://auth.example.com/oauth/token'' ''svcA'' []"

definition example_token :: Token where
  "example_token =
     \<lparr>access_token = ''abc'', expires_in = 3600, token_type = ''Bearer'', audience = ''svcA''\<rparr>"

definition example_body :: "pyval \<Rightarrow> token_json" where
  "example_body e =
     \<lparr>j_access_token = Some ''abc'', j_expires_in = Some e, j_token_type = Some ''Bearer''\<rparr>"

text \<open>An endpoint that answers every request with the same status, text and JSON.\<close>

definition endpoint_answering ::
  "int \<Rightarrow> string \<Rightarrow> token_json option \<Rightarrow> http_request \<Rightarrow> error + http_response" where
  "endpoint_answering status txt body req =
     Inr \<lparr>status_code = status, body_text = txt, json_body = body\<rparr>"

text \<open>A world with an empty store and empty logs.\<close>

definition fresh_world :: "(http_request \<Rightarrow> error + http_response) \<Rightarrow> world" where
  "fresh_world ep = \<lparr>redis = Map.empty, redis_log = [], endpoint = ep, http_log = []\<rparr>"

text \<open>A world whose store holds the given hash, with no time to live, under one key.\<close>

definition world_with_hash :: "string \<Rightarrow> pydict \<Rightarrow> world" where
  "world_with_hash k h =
     \<lparr>redis = [k \<mapsto> \<lparr>hash_fields = h, ttl = None\<rparr>], redis_log = [],
      endpoint = (\<lambda>req. Inl ConnectionError), http_log = []\<rparr>"

section \<open>Round trip of the decimal representation\<close>

lemma digit_char_is_digit: "d < 10 \<Longrightarrow> is_digit (digit_char d)"
  by (simp add: is_digit_def digit_char_def)

lemma digit_char_value: "d < 10 \<Longrightarrow> digit_value (digit_char d) = d"
  by (simp add: digit_value_def digit_char_def)

lemma is_digit_not_space: "is_digit c \<Longrightarrow> \<not> is_space c"
  by (auto simp: is_digit_def is_space_def Let_def)

lemma is_digit_not_underscore: "is_digit c \<Longrightarrow> c \<noteq> CHR ''_''"
  by (auto simp: is_digit_def)

lemma is_digit_not_sign: "is_digit c \<Longrightarrow> c \<noteq> CHR ''-'' \<and> c \<noteq> CHR ''+''"
  by (auto simp: is_digit_def)

lemma dec_digits_all_digits: "\<forall>c \<in> set (dec_digits n). is_digit c"
proof (induction n rule: dec_digits.induct)
  case (1 n)
  show ?case
  proof (cases "n < 10")
    case True
    then show ?thesis by (subst dec_digits.simps) (simp add: digit_char_is_digit)
  next
    case False
    then have "\<forall>c \<in> set (dec_digits (n div 10)). is_digit c" using 1 by simp
    moreover have "is_digit (digit_char (n mod 10))" by (simp add: digit_char_is_digit)
    ultimately show ?thesis using False by (subst dec_digits.simps) auto
  qed
qed

lemma dec_digits_nonempty: "dec_digits n \<noteq> []"
  by (subst dec_digits.simps) simp

lemma digit_groups_all_digits:
  "\<forall>c \<in> set s. is_digit c \<Longrightarrow> s \<noteq> [] \<or> prev \<Longrightarrow> digit_groups prev s"
  by (induction s arbitrary: prev) auto

lemma filter_underscore_digits:
  "\<forall>c \<in> set s. is_digit c \<Longrightarrow> filter (\<lambda>c. c \<noteq> CHR ''_'') s = s"
  by (induction s) (auto simp: is_digit_not_underscore)

lemma digits_value_snoc: "digits_value (s @ [c]) = 10 * digits_value s + digit_value c"
  by (simp add: digits_value_def)

lemma digits_value_dec_digits: "digits_value (dec_digits n) = n"
proof (induction n rule: dec_digits.induct)
  case (1 n)
  show ?case
  proof (cases "n < 10")
    case True
    then show ?thesis by (subst dec_digits.simps) (simp add: digits_value_def digit_char_value)
  next
    case False
    then have ih: "digits_value (dec_digits (n div 10)) = n div 10" using 1 by simp
    have "digits_value (dec_digits n) = 10 * digits_value (dec_digits (n div 10)) + digit_value (digit_char (n mod 10))"
      using False by (subst dec_digits.simps) (simp add: digits_value_snoc)
    then show ?thesis using ih by (simp add: digit_char_value)
  qed
qed

lemma strip_digits:
  assumes "s \<noteq> []" "\<not> is_space (hd s)" "\<not> is_space (last s)"
  shows "strip s = s"
proof -
  have 1: "dropWhile is_space s = s"
    using assms by (simp add: dropWhile_eq_self_iff)
  have "hd (rev s) = last s" using assms by (simp add: hd_rev)
  then have "dropWhile is_space (rev s) = rev s"
    using assms by (simp add: dropWhile_eq_self_iff)
  then show ?thesis using 1 by (simp add: strip_def)
qed

lemma int_of_str_dec_digits: "int_of_str (dec_digits n) = Some (int n)"
proof -
  let ?s = "dec_digits n"
  have ne: "?s \<noteq> []" by (rule dec_digits_nonempty)
  have all: "\<forall>c \<in> set ?s. is_digit c" by (rule dec_digits_all_digits)
  have "is_digit (hd ?s)" "is_digit (last ?s)" using ne all by auto
  then have st: "strip ?s = ?s" and sg: "hd ?s \<noteq> CHR ''-'' \<and> hd ?s \<noteq> CHR ''+''"
    using ne by (auto simp: strip_digits is_digit_not_space is_digit_not_sign)
  have "split_sign ?s = (False, ?s)" using ne sg by (cases ?s) (auto simp: split_sign_def)
  then show ?thesis
    using st all ne
    by (simp add: int_of_str_def digit_groups_all_digits filter_underscore_digits digits_value_dec_digits)
qed

lemma int_of_str_neg_dec_digits: "int_of_str (CHR ''-'' # dec_digits n) = Some (- int n)"
proof -
  let ?s = "dec_digits n"
  have ne: "?s \<noteq> []" by (rule dec_digits_nonempty)
  have all: "\<forall>c \<in> set ?s. is_digit c" by (rule dec_digits_all_digits)
  have "is_digit (last ?s)" using ne all by auto
  then have "\<not> is_space (last (CHR ''-'' # ?s))" using ne by (simp add: is_digit_not_space)
  moreover have "\<not> is_space (hd (CHR ''-'' # ?s))" by (simp add: is_space_def)
  ultimately have st: "strip (CHR ''-'' # ?s) = CHR ''-'' # ?s" by (intro strip_digits) simp_all
  have "split_sign (CHR ''-'' # ?s) = (True, ?s)" by (simp add: split_sign_def)
  then show ?thesis
    using st all ne
    by (simp add: int_of_str_def digit_groups_all_digits filter_underscore_digits digits_value_dec_digits)
qed

lemma int_of_str_py_str: "int_of_str (py_str n) = Some n"
  by (cases "n < 0") (simp_all add: py_str_def int_of_str_dec_digits int_of_str_neg_dec_digits)

section \<open>Facts about the operations\<close>

lemma and_then_Inl [simp]: "and_then (Inl e) f = Inl e"
  by (simp add: and_then_def)

lemma and_then_Inr [simp]: "and_then (Inr v) f = f v"
  by (simp add: and_then_def)

lemma map_of_hset_asdict:
  "map_of (hset (asdict t) h) =
     (map_of h)(''access_token'' \<mapsto> access_token t, ''expires_in'' \<mapsto> py_str (expires_in t),
                ''token_type'' \<mapsto> token_type t, ''audience'' \<mapsto> Token.audience t)"
  by (simp add: hset_def asdict_def update_conv')

lemma hset_asdict_nonempty: "hset (asdict t) h \<noteq> []"
proof
  assume "hset (asdict t) h = []"
  then have "map_of (hset (asdict t) h) ''audience'' = None" by simp
  then show False by (simp add: map_of_hset_asdict)
qed

lemma cache_token_world:
  "snd (cache_token c t w) =
     w\<lparr>redis := fold exec_cmd [HMSET (cache_key c) (asdict t), EXPIRE (cache_key c) (expires_in t)] (redis w),
       redis_log := redis_log w @ [[HMSET (cache_key c) (asdict t), EXPIRE (cache_key c) (expires_in t)]]\<rparr>"
  by (simp add: cache_token_def pipeline_hmset_def pipeline_expire_def pipeline_execute_def Let_def
        del: exec_cmd.simps)

lemma cached_token_decode:
  "cached_token c w =
    (let values = (case redis w (cache_key c) of None \<Rightarrow> [] | Some e \<Rightarrow> hash_fields e);
         w1 = w\<lparr>redis_log := redis_log w @ [[HGETALL (cache_key c)]]\<rparr>
     in (if values = [] then Inr None
         else case map_of values ''access_token'' of None \<Rightarrow> Inl (KeyError ''access_token'') | Some a \<Rightarrow>
              (case map_of values ''expires_in'' of None \<Rightarrow> Inl (KeyError ''expires_in'') | Some x \<Rightarrow>
              (case int_of_str x of None \<Rightarrow> Inl ValueError | Some n \<Rightarrow>
              (case map_of values ''token_type'' of None \<Rightarrow> Inl (KeyError ''token_type'') | Some ty \<Rightarrow>
              (case map_of values ''audience'' of None \<Rightarrow> Inl (KeyError ''audience'') | Some aud \<Rightarrow>
                 Inr (Some \<lparr>access_token = a, expires_in = n, token_type = ty, audience = aud\<rparr>))))), w1))"
  by (auto simp: cached_token_def hgetall_def Let_def getitem_def py_int_def Token_init_def
           split: option.splits)

lemma requests_post_token:
  "requests_post (token_url c)
     [(''grant_type'', ''client_credentials''), (''client_id'', client_id c),
      (''client_secret'', client_secret c), (''audience'', TokenClient.audience c)]
     False (timeout c) w
   = (endpoint w (token_request c), w\<lparr>http_log := http_log w @ [token_request c]\<rparr>)"
  by (simp add: requests_post_def token_request_def Let_def)

lemma fresh_token_unfold:
  "fresh_token c w =
     (case and_then (endpoint w (token_request c)) (\<lambda>response.
           and_then (raise_for_status response) (\<lambda>_.
           and_then (response_json response) (\<lambda>body.
           and_then (member ''access_token'' (j_access_token body)) (\<lambda>a.
           and_then (member ''expires_in'' (j_expires_in body)) (\<lambda>e.
           and_then (member ''token_type'' (j_token_type body)) (\<lambda>ty.
           Token_init a e ty (TokenClient.audience c))))))) of
        Inl err \<Rightarrow> (Inl err, w\<lparr>http_log := http_log w @ [token_request c]\<rparr>)
      | Inr token \<Rightarrow>
          (Inr token, snd (cache_token c token (w\<lparr>http_log := http_log w @ [token_request c]\<rparr>))))"
  by (simp add: fresh_token_def requests_post_token cache_token_def Let_def split: sum.splits)

lemma fresh_token_made:
  assumes "endpoint w (token_request c) = Inr resp"
    and "\<not> (400 \<le> status_code resp \<and> status_code resp < 600)"
    and "json_body resp = Some body"
    and "j_access_token body = Some a" "j_expires_in body = Some e" "j_token_type body = Some ty"
    and "py_int e = Inr n"
  shows "fresh_token c w =
     (Inr \<lparr>access_token = a, expires_in = n, token_type = ty, audience = TokenClient.audience c\<rparr>,
      snd (cache_token c
             \<lparr>access_token = a, expires_in = n, token_type = ty, audience = TokenClient.audience c\<rparr>
             (w\<lparr>http_log := http_log w @ [token_request c]\<rparr>)))"
proof -
  have "raise_for_status resp = Inr ()"
    using assms(2) by (auto simp: raise_for_status_def)
  then show ?thesis
    using assms
    by (simp add: fresh_token_unfold response_json_def member_def Token_init_def)
qed

lemma append_sep_inject:
  "xs @ c # ys = xs' @ c # ys' \<Longrightarrow> c \<notin> set xs \<Longrightarrow> c \<notin> set xs' \<Longrightarrow> xs = xs' \<and> ys = ys'"
proof (induction xs arbitrary: xs')
  case Nil
  then show ?case by (cases xs') auto
next
  case (Cons x xs)
  then show ?case by (cases xs') auto
qed

lemma append_sep_inject_right:
  assumes "xs @ c # ys = xs' @ c # ys'" "c \<notin> set ys" "c \<notin> set ys'"
  shows "xs = xs' \<and> ys = ys'"
proof -
  have "rev ys @ c # rev xs = rev ys' @ c # rev xs'"
    using arg_cong [OF assms(1), of rev] by simp
  then have "rev ys = rev ys' \<and> rev xs = rev xs'"
    using assms(2,3) by (intro append_sep_inject) simp_all
  then show ?thesis by simp
qed

lemma fresh_token_http_error:
  assumes "endpoint w (token_request c) = Inr resp"
    and "400 \<le> status_code resp" "status_code resp < 600"
  shows "fresh_token c w = (Inl (HTTPError resp), w\<lparr>http_log := http_log w @ [token_request c]\<rparr>)"
proof -
  have "raise_for_status resp = Inl (HTTPError resp)"
    using assms(2,3) by (auto simp: raise_for_status_def)
  then show ?thesis using assms(1) by (simp add: fresh_token_unfold)
qed


lemma cache_key_example: "cache_key example_client = ''oauth_token_cache__client1_svcA''"
  by (simp add: example_client_def TokenClient_init_def cache_key_def)

section \<open>The claims\<close>

subsection \<open>C1: writing a token and reading it back\<close>

text \<open>
  C1. For a token \<open>t\<close> whose \<open>expires_in\<close> is positive, \<open>cache_token t\<close> and then
  \<open>cached_token\<close> on the resulting state returns a token with the four fields of \<open>t\<close>,
  \<open>expires_in\<close> read back from its decimal string. When \<open>expires_in\<close> is zero or
  negative, the \<open>EXPIRE\<close> of the same batch deletes the key and the read is a miss.
\<close>

theorem cache_token_then_cached_token:
  "(0 < expires_in t \<longrightarrow> fst (cached_token c (snd (cache_token c t w))) = Inr (Some t)) \<and>
   (expires_in t \<le> 0 \<longrightarrow> fst (cached_token c (snd (cache_token c t w))) = Inr None)"
  by (simp add: cached_token_decode cache_token_world Let_def map_of_hset_asdict
        hset_asdict_nonempty int_of_str_py_str split: option.splits)

text \<open>The positive case at the token \<open>abc\<close> of 3600 seconds.\<close>

theorem cache_token_then_cached_token_witness:
  "0 < expires_in example_token \<and>
   fst (cached_token example_client
          (snd (cache_token example_client example_token (fresh_world (endpoint_answering 200 [] None)))))
     = Inr (Some example_token)"
  using cache_token_then_cached_token
          [of example_token example_client "fresh_world (endpoint_answering 200 [] None)"]
  by (simp add: example_token_def)

text \<open>The claim as stated, for every token, fails at a token with \<open>expires_in = 0\<close>.\<close>

theorem cache_token_then_cached_token_counterexample:
  "fst (cached_token example_client
          (snd (cache_token example_client (example_token\<lparr>expires_in := 0\<rparr>)
                  (fresh_world (endpoint_answering 200 [] None)))))
     = Inr None"
  by (simp add: cached_token_decode cache_token_world fresh_world_def Let_def)

subsection \<open>C2: a fresh token is built from the response, cached and returned\<close>

text \<open>
  C2. When the token endpoint answers with a 2xx status and a JSON object that holds
  \<open>access_token\<close>, \<open>token_type\<close> and an \<open>expires_in\<close> that \<open>int\<close> converts to \<open>n\<close>,
  \<open>fresh_token\<close> returns the token made of these and of the configured audience, sends
  the store one batch that writes exactly this token under the cache key, and (for
  positive \<open>n\<close>) the token can be read back from the cache.
\<close>

theorem fresh_token_success:
  assumes "endpoint w (token_request c) = Inr resp"
    and "200 \<le> status_code resp" "status_code resp < 300"
    and "json_body resp = Some body"
    and "j_access_token body = Some a" "j_expires_in body = Some e" "j_token_type body = Some ty"
    and "py_int e = Inr n"
  shows "fst (fresh_token c w) =
           Inr \<lparr>access_token = a, expires_in = n, token_type = ty, audience = TokenClient.audience c\<rparr>
       \<and> redis_log (snd (fresh_token c w)) =
           redis_log w @
             [[HMSET (cache_key c)
                 (asdict \<lparr>access_token = a, expires_in = n, token_type = ty,
                          audience = TokenClient.audience c\<rparr>),
               EXPIRE (cache_key c) n]]
       \<and> redis (snd (fresh_token c w)) =
           exec_cmd (EXPIRE (cache_key c) n)
             (exec_cmd (HMSET (cache_key c)
                 (asdict \<lparr>access_token = a, expires_in = n, token_type = ty,
                          audience = TokenClient.audience c\<rparr>)) (redis w))
       \<and> (0 < n \<longrightarrow>
            fst (cached_token c (snd (fresh_token c w))) =
              Inr (Some \<lparr>access_token = a, expires_in = n, token_type = ty,
                         audience = TokenClient.audience c\<rparr>))"
proof -
  let ?tok = "\<lparr>access_token = a, expires_in = n, token_type = ty, audience = TokenClient.audience c\<rparr>"
  let ?w1 = "w\<lparr>http_log := http_log w @ [token_request c]\<rparr>"
  have ok: "\<not> (400 \<le> status_code resp \<and> status_code resp < 600)"
    using assms(3) by simp
  have ft: "fresh_token c w = (Inr ?tok, snd (cache_token c ?tok ?w1))"
    using fresh_token_made [OF assms(1) ok assms(4-8)] .
  have 1: "fst (fresh_token c w) = Inr ?tok" by (simp add: ft)
  have 2: "redis_log (snd (fresh_token c w)) =
             redis_log w @ [[HMSET (cache_key c) (asdict ?tok), EXPIRE (cache_key c) n]]"
    by (simp add: ft cache_token_world del: exec_cmd.simps)
  have 3: "redis (snd (fresh_token c w)) =
             exec_cmd (EXPIRE (cache_key c) n) (exec_cmd (HMSET (cache_key c) (asdict ?tok)) (redis w))"
    by (simp add: ft cache_token_world del: exec_cmd.simps)
  have 4: "0 < n \<longrightarrow> fst (cached_token c (snd (fresh_token c w))) = Inr (Some ?tok)"
    by (simp add: ft cached_token_decode cache_token_world Let_def map_of_hset_asdict
          hset_asdict_nonempty int_of_str_py_str split: option.splits)
  show ?thesis using 1 2 3 4 by blast
qed

text \<open>
  The answer 200 with \<open>access_token = abc\<close>, \<open>expires_in = 3600\<close> and
  \<open>token_type = Bearer\<close>, for the audience \<open>svcA\<close>.
\<close>

theorem fresh_token_success_witness:
  "fst (fresh_token example_client
          (fresh_world (endpoint_answering 200 [] (Some (example_body (PyInt 3600))))))
     = Inr example_token
   \<and> redis_log (snd (fresh_token example_client
          (fresh_world (endpoint_answering 200 [] (Some (example_body (PyInt 3600)))))))
     = [[HMSET ''oauth_token_cache__client1_svcA'' (asdict example_token),
         EXPIRE ''oauth_token_cache__client1_svcA'' 3600]]
   \<and> fst (cached_token example_client (snd (fresh_token example_client
          (fresh_world (endpoint_answering 200 [] (Some (example_body (PyInt 3600))))))))
     = Inr (Some example_token)"
proof -
  let ?w = "fresh_world (endpoint_answering 200 [] (Some (example_body (PyInt 3600))))"
  let ?resp = "\<lparr>status_code = 200, body_text = [], json_body = Some (example_body (PyInt 3600))\<rparr>"
  have 1: "endpoint ?w (token_request example_client) = Inr ?resp"
    by (simp add: fresh_world_def endpoint_answering_def)
  have 2: "py_int (PyInt 3600) = Inr 3600"
    by (simp add: py_int_def)
  have 3: "j_access_token (example_body (PyInt 3600)) = Some ''abc''"
          "j_expires_in (example_body (PyInt 3600)) = Some (PyInt 3600)"
          "j_token_type (example_body (PyInt 3600)) = Some ''Bearer''"
    by (simp_all add: example_body_def)
  have 4: "TokenClient.audience example_client = ''svcA''"
    by (simp add: example_client_def TokenClient_init_def)
  have 5: "redis_log ?w = []" by (simp add: fresh_world_def)
  show ?thesis
    using fresh_token_success [OF 1 _ _ _ 3 2] 4 5
    by (simp add: example_token_def cache_key_example)
qed

text \<open>
  The claim as stated, for every 2xx response that holds the three members, fails when
  \<open>expires_in\<close> is not convertible: the constructor raises.
\<close>

theorem fresh_token_success_counterexample:
  "fst (fresh_token example_client
          (fresh_world (endpoint_answering 200 [] (Some (example_body (PyStr ''soon''))))))
     = Inl ValueError"
  by (simp add: fresh_token_unfold fresh_world_def endpoint_answering_def raise_for_status_def
        response_json_def member_def example_body_def Token_init_def
        py_int_def int_of_str_def strip_def split_sign_def is_space_def is_digit_def)
subsection \<open>C3: the cache key\<close>

text \<open>
  C3. \<open>cache_key\<close> is the string \<open>oauth_token_cache__\<close>, the client id, an underscore and
  the audience; it depends on nothing else, so equal pairs of client id and audience give
  equal keys. Two pairs that differ in one component only give different keys, and so do
  any two different pairs whose client ids hold no underscore, or whose audiences hold none.
\<close>

theorem cache_key_format:
  "cache_key c = ''oauth_token_cache__'' @ client_id c @ ''_'' @ TokenClient.audience c
   \<and> (client_id c = client_id c' \<and> TokenClient.audience c = TokenClient.audience c'
        \<longrightarrow> cache_key c = cache_key c')
   \<and> (cache_key c = cache_key c' \<and> client_id c = client_id c'
        \<longrightarrow> TokenClient.audience c = TokenClient.audience c')
   \<and> (cache_key c = cache_key c' \<and> TokenClient.audience c = TokenClient.audience c'
        \<longrightarrow> client_id c = client_id c')
   \<and> (cache_key c = cache_key c'
        \<and> CHR ''_'' \<notin> set (client_id c) \<and> CHR ''_'' \<notin> set (client_id c')
        \<longrightarrow> client_id c = client_id c' \<and> TokenClient.audience c = TokenClient.audience c')
   \<and> (cache_key c = cache_key c'
        \<and> CHR ''_'' \<notin> set (TokenClient.audience c) \<and> CHR ''_'' \<notin> set (TokenClient.audience c')
        \<longrightarrow> client_id c = client_id c' \<and> TokenClient.audience c = TokenClient.audience c')"
proof -
  have eq: "cache_key c = cache_key c' \<longleftrightarrow>
        client_id c @ CHR ''_'' # TokenClient.audience c
          = client_id c' @ CHR ''_'' # TokenClient.audience c'"
    by (simp add: cache_key_def)
  have 1: "cache_key c = ''oauth_token_cache__'' @ client_id c @ ''_'' @ TokenClient.audience c"
    by (simp add: cache_key_def)
  have 2: "client_id c = client_id c' \<and> TokenClient.audience c = TokenClient.audience c'
        \<longrightarrow> cache_key c = cache_key c'"
    by (simp add: cache_key_def)
  have 3: "cache_key c = cache_key c' \<and> client_id c = client_id c'
        \<longrightarrow> TokenClient.audience c = TokenClient.audience c'"
    by (auto simp: eq)
  have 4: "cache_key c = cache_key c' \<and> TokenClient.audience c = TokenClient.audience c'
        \<longrightarrow> client_id c = client_id c'"
    by (auto simp: eq)
  have 5: "cache_key c = cache_key c'
        \<and> CHR ''_'' \<notin> set (client_id c) \<and> CHR ''_'' \<notin> set (client_id c')
        \<longrightarrow> client_id c = client_id c' \<and> TokenClient.audience c = TokenClient.audience c'"
    using append_sep_inject [of "client_id c" "CHR ''_''" "TokenClient.audience c"
            "client_id c'" "TokenClient.audience c'"]
    by (simp add: eq)
  have 6: "cache_key c = cache_key c'
        \<and> CHR ''_'' \<notin> set (TokenClient.audience c) \<and> CHR ''_'' \<notin> set (TokenClient.audience c')
        \<longrightarrow> client_id c = client_id c' \<and> TokenClient.audience c = TokenClient.audience c'"
    using append_sep_inject_right [of "client_id c" "CHR ''_''" "TokenClient.audience c"
            "client_id c'" "TokenClient.audience c'"]
    by (simp add: eq)
  show ?thesis using 1 2 3 4 5 6 by blast
qed

text \<open>
  Four clients against \<open>client1\<close> for \<open>svcA\<close>: the same pair, another id, another
  audience, and both other.
\<close>

theorem cache_key_format_witness:
  "cache_key example_client = ''oauth_token_cache__client1_svcA''
   \<and> cache_key (TokenClient_init ''client1'' ''other'' ''https://b.example.com/token'' ''svcA'' [(''timeout'', 9)])
       = cache_key example_client
   \<and> cache_key (TokenClient_init ''client2'' ''s3cret'' [] ''svcA'' []) \<noteq> cache_key example_client
   \<and> cache_key (TokenClient_init ''client1'' ''s3cret'' [] ''svc_B'' []) \<noteq> cache_key example_client
   \<and> cache_key (TokenClient_init ''client2'' ''s3cret'' [] ''svc_B'' []) \<noteq> cache_key example_client"
proof -
  let ?c1 = "TokenClient_init ''client1'' ''other'' ''https://b.example.com/token'' ''svcA'' [(''timeout'', 9)]"
  let ?c2 = "TokenClient_init ''client2'' ''s3cret'' [] ''svcA'' []"
  let ?c3 = "TokenClient_init ''client1'' ''s3cret'' [] ''svc_B'' []"
  let ?c4 = "TokenClient_init ''client2'' ''s3cret'' [] ''svc_B'' []"
  have ids: "client_id example_client = ''client1''" "TokenClient.audience example_client = ''svcA''"
    "client_id ?c1 = ''client1''" "TokenClient.audience ?c1 = ''svcA''"
    "client_id ?c2 = ''client2''" "TokenClient.audience ?c2 = ''svcA''"
    "client_id ?c3 = ''client1''" "TokenClient.audience ?c3 = ''svc_B''"
    "client_id ?c4 = ''client2''" "TokenClient.audience ?c4 = ''svc_B''"
    by (simp_all add: example_client_def TokenClient_init_def)
  have a: "cache_key example_client = ''oauth_token_cache__client1_svcA''"
    using cache_key_format [of example_client example_client] by (simp add: ids)
  have same: "client_id ?c1 = client_id example_client
      \<and> TokenClient.audience ?c1 = TokenClient.audience example_client"
    by (simp add: ids)
  have b: "cache_key ?c1 = cache_key example_client"
    using cache_key_format [of ?c1 example_client] same by blast
  have c: "cache_key ?c2 \<noteq> cache_key example_client"
    using cache_key_format [of ?c2 example_client] ids by auto
  have d: "cache_key ?c3 \<noteq> cache_key example_client"
    using cache_key_format [of ?c3 example_client] ids by auto
  have e: "cache_key ?c4 \<noteq> cache_key example_client"
    using cache_key_format [of ?c4 example_client] ids by auto
  show ?thesis using a b c d e by blast
qed

text \<open>
  The claim as stated, that any two distinct pairs give distinct keys, fails: the pairs
  \<open>(a_b, c)\<close> and \<open>(a, b_c)\<close> share the key \<open>oauth_token_cache__a_b_c\<close>.
\<close>

theorem cache_key_format_counterexample:
  "cache_key (TokenClient_init ''a_b'' ''s1'' ''https://auth.example.com/oauth/token'' ''c'' [])
     = cache_key (TokenClient_init ''a'' ''s2'' ''https://auth.example.com/oauth/token'' ''b_c'' [])
   \<and> client_id (TokenClient_init ''a_b'' ''s1'' ''https://auth.example.com/oauth/token'' ''c'' [])
     \<noteq> client_id (TokenClient_init ''a'' ''s2'' ''https://auth.example.com/oauth/token'' ''b_c'' [])
   \<and> TokenClient.audience (TokenClient_init ''a_b'' ''s1'' ''https://auth.example.com/oauth/token'' ''c'' [])
     \<noteq> TokenClient.audience (TokenClient_init ''a'' ''s2'' ''https://auth.example.com/oauth/token'' ''b_c'' [])"
  by (simp add: cache_key_def TokenClient_init_def)
subsection \<open>C4: an error status of the token endpoint\<close>

text \<open>
  C4. When the token endpoint answers with a status from 400 to 599, \<open>fresh_token\<close>
  raises the HTTP error that carries the response (its status and its body), and the
  store and the log of its round trips are unchanged.
\<close>

theorem fresh_token_error_status:
  assumes "endpoint w (token_request c) = Inr resp"
    and "400 \<le> status_code resp" "status_code resp < 600"
  shows "fst (fresh_token c w) = Inl (HTTPError resp)
       \<and> redis (snd (fresh_token c w)) = redis w
       \<and> redis_log (snd (fresh_token c w)) = redis_log w"
  by (simp add: fresh_token_http_error [OF assms])

text \<open>The answer 401 with the body \<open>denied\<close>.\<close>

theorem fresh_token_error_status_witness:
  "fst (fresh_token example_client (fresh_world (endpoint_answering 401 ''denied'' None)))
     = Inl (HTTPError \<lparr>status_code = 401, body_text = ''denied'', json_body = None\<rparr>)
   \<and> redis_log (snd (fresh_token example_client (fresh_world (endpoint_answering 401 ''denied'' None))))
     = []"
proof -
  let ?w = "fresh_world (endpoint_answering 401 ''denied'' None)"
  have 1: "endpoint ?w (token_request example_client)
             = Inr \<lparr>status_code = 401, body_text = ''denied'', json_body = None\<rparr>"
    by (simp add: fresh_world_def endpoint_answering_def)
  have 2: "redis_log ?w = []" by (simp add: fresh_world_def)
  show ?thesis using fresh_token_error_status [OF 1] 2 by simp
qed

text \<open>
  The claim as stated, for every status that is not 2xx, fails at the redirect 302, which
  \<open>raise_for_status\<close> lets pass: a body that is not JSON ends in the decoding error
  and not in an HTTP error, and a JSON body with the three members is cached and returned.
\<close>

theorem fresh_token_error_status_counterexample:
  "fst (fresh_token example_client (fresh_world (endpoint_answering 302 ''moved'' None)))
     = Inl JSONDecodeError
   \<and> fst (fresh_token example_client
            (fresh_world (endpoint_answering 302 [] (Some (example_body (PyInt 3600))))))
     = Inr example_token
   \<and> redis_log (snd (fresh_token example_client
            (fresh_world (endpoint_answering 302 [] (Some (example_body (PyInt 3600)))))))
     = [[HMSET ''oauth_token_cache__client1_svcA'' (asdict example_token),
         EXPIRE ''oauth_token_cache__client1_svcA'' 3600]]"
  by (simp add: fresh_token_unfold fresh_world_def endpoint_answering_def raise_for_status_def
        response_json_def member_def example_body_def Token_init_def py_int_def
        cache_token_world example_client_def TokenClient_init_def cache_key_def example_token_def
        del: exec_cmd.simps)

subsection \<open>C5: a cache miss\<close>

text \<open>
  C5. When the cache key is absent, or the store returns an empty field map for it,
  \<open>cached_token\<close> returns \<open>None\<close> and not an error, and it writes nothing: the store is
  unchanged and the one round trip is the read.
\<close>

theorem cached_token_miss:
  assumes "redis w (cache_key c) = None \<or> fst (hgetall (cache_key c) w) = []"
  shows "fst (cached_token c w) = Inr None
       \<and> redis (snd (cached_token c w)) = redis w
       \<and> redis_log (snd (cached_token c w)) = redis_log w @ [[HGETALL (cache_key c)]]"
  using assms
  by (auto simp: cached_token_decode hgetall_def Let_def)

text \<open>
  The client \<open>client1\<close> for \<open>svcA\<close>, on an empty store and on a store whose entry under
  the cache key has no field.
\<close>

theorem cached_token_miss_witness:
  "redis (fresh_world (endpoint_answering 200 [] None)) (cache_key example_client) = None
   \<and> fst (cached_token example_client (fresh_world (endpoint_answering 200 [] None))) = Inr None
   \<and> redis_log (snd (cached_token example_client (fresh_world (endpoint_answering 200 [] None))))
       = [[HGETALL ''oauth_token_cache__client1_svcA'']]
   \<and> fst (hgetall (cache_key example_client)
            (world_with_hash ''oauth_token_cache__client1_svcA'' [])) = []
   \<and> fst (cached_token example_client
            (world_with_hash ''oauth_token_cache__client1_svcA'' [])) = Inr None
   \<and> redis (snd (cached_token example_client
            (world_with_hash ''oauth_token_cache__client1_svcA'' [])))
       = redis (world_with_hash ''oauth_token_cache__client1_svcA'' [])"
proof -
  let ?w = "fresh_world (endpoint_answering 200 [] None)"
  let ?v = "world_with_hash ''oauth_token_cache__client1_svcA'' []"
  have 1: "redis ?w (cache_key example_client) = None" by (simp add: fresh_world_def)
  then have 2: "redis ?w (cache_key example_client) = None
                 \<or> fst (hgetall (cache_key example_client) ?w) = []" by simp
  have 3: "redis_log ?w = []" by (simp add: fresh_world_def)
  have 4: "fst (hgetall (cache_key example_client) ?v) = []"
    by (simp add: hgetall_def world_with_hash_def cache_key_example)
  then have 5: "redis ?v (cache_key example_client) = None
                 \<or> fst (hgetall (cache_key example_client) ?v) = []" by simp
  show ?thesis
    using cached_token_miss [OF 2] cached_token_miss [OF 5] 1 3 4
    by (simp add: cache_key_example)
qed

subsection \<open>C6: the write is one batch\<close>




subsection \<open>C7: the token is passed through\<close>

text \<open>
  C7. For every token \<open>t\<close>, \<open>cache_token t\<close> returns \<open>t\<close> itself; and whenever
  \<open>fresh_token\<close> returns a token, its result and its final state are those of the call
  of \<open>cache_token\<close> on that token, made after the request was sent.
\<close>

theorem cache_token_returns_token:
  "fst (cache_token c t w) = t
   \<and> (fst (fresh_token c w) = Inr tok \<longrightarrow>
        fresh_token c w =
          (Inr (fst (cache_token c tok (w\<lparr>http_log := http_log w @ [token_request c]\<rparr>))),
           snd (cache_token c tok (w\<lparr>http_log := http_log w @ [token_request c]\<rparr>))))"
proof -
  have 1: "fst (cache_token c t w) = t" for t w
    by (simp add: cache_token_def Let_def)
  have 2: "fst (fresh_token c w) = Inr tok \<longrightarrow>
        fresh_token c w =
          (Inr (fst (cache_token c tok (w\<lparr>http_log := http_log w @ [token_request c]\<rparr>))),
           snd (cache_token c tok (w\<lparr>http_log := http_log w @ [token_request c]\<rparr>)))"
    by (auto simp: fresh_token_unfold 1 split: sum.splits)
  show ?thesis using 1 2 by blast
qed

text \<open>The token \<open>abc\<close>, and the answer 200 that carries it.\<close>

theorem cache_token_returns_token_witness:
  "fst (cache_token example_client example_token (fresh_world (endpoint_answering 200 [] None)))
     = example_token
   \<and> fst (fresh_token example_client
            (fresh_world (endpoint_answering 200 [] (Some (example_body (PyInt 3600))))))
     = Inr example_token
   \<and> fresh_token example_client
        (fresh_world (endpoint_answering 200 [] (Some (example_body (PyInt 3600)))))
     = (Inr example_token,
        snd (cache_token example_client example_token
              ((fresh_world (endpoint_answering 200 [] (Some (example_body (PyInt 3600)))))
                 \<lparr>http_log := [token_request example_client]\<rparr>)))"
proof -
  let ?w = "fresh_world (endpoint_answering 200 [] (Some (example_body (PyInt 3600))))"
  have r: "fst (fresh_token example_client ?w) = Inr example_token"
    by (simp add: fresh_token_unfold fresh_world_def endpoint_answering_def raise_for_status_def
        response_json_def member_def example_body_def Token_init_def py_int_def
        example_client_def TokenClient_init_def example_token_def)
  have l: "http_log ?w = []" by (simp add: fresh_world_def)
  show ?thesis
    using cache_token_returns_token
            [of example_client example_token "fresh_world (endpoint_answering 200 [] None)"]
          cache_token_returns_token [of example_client example_token ?w example_token] r l
    by simp
qed

subsection \<open>C8: an expiry in the cache that is not a number\<close>

text \<open>
  C8. When the store returns a field map whose \<open>expires_in\<close> is not parseable as an
  integer, \<open>cached_token\<close> fails, and returns neither a token nor \<open>None\<close>: with the
  parsing error \<open>ValueError\<close> when the map holds \<open>access_token\<close>, and with the
  \<open>KeyError\<close> of \<open>access_token\<close> when it does not, since that field is read first.
\<close>

theorem cached_token_unparseable_expiry:
  assumes "fst (hgetall (cache_key c) w) = values"
    and "map_of values ''expires_in'' = Some x"
    and "int_of_str x = None"
  shows "fst (cached_token c w) =
           (if map_of values ''access_token'' = None then Inl (KeyError ''access_token'')
            else Inl ValueError)"
proof -
  have v: "(case redis w (cache_key c) of None \<Rightarrow> [] | Some e \<Rightarrow> hash_fields e) = values"
    using assms(1) by (simp add: hgetall_def)
  have ne: "values \<noteq> []" using assms(2) by auto
  show ?thesis
    using assms(2,3) ne
    by (simp add: cached_token_decode v Let_def split: option.splits)
qed

text \<open>A full map whose \<open>expires_in\<close> is the word \<open>soon\<close>.\<close>

theorem cached_token_unparseable_expiry_witness:
  "fst (cached_token example_client
          (world_with_hash ''oauth_token_cache__client1_svcA''
             [(''access_token'', ''abc''), (''expires_in'', ''soon''),
              (''token_type'', ''Bearer''), (''audience'', ''svcA'')]))
     = Inl ValueError"
proof -
  let ?h = "[(''access_token'', ''abc''), (''expires_in'', ''soon''),
              (''token_type'', ''Bearer''), (''audience'', ''svcA'')]"
  let ?w = "world_with_hash ''oauth_token_cache__client1_svcA'' ?h"
  have 1: "fst (hgetall (cache_key example_client) ?w) = ?h"
    by (simp add: hgetall_def world_with_hash_def cache_key_example)
  have 2: "map_of ?h ''expires_in'' = Some ''soon''" by simp
  have 3: "int_of_str ''soon'' = None"
    by (simp add: int_of_str_def strip_def split_sign_def is_space_def is_digit_def)
  show ?thesis using cached_token_unparseable_expiry [OF 1 2 3] by simp
qed

text \<open>
  The claim as stated, a parsing error for every non-empty map with such an \<open>expires_in\<close>,
  fails at the map that holds nothing else: the error is the lookup error.
\<close>

theorem cached_token_unparseable_expiry_counterexample:
  "fst (cached_token example_client
          (world_with_hash ''oauth_token_cache__client1_svcA'' [(''expires_in'', ''soon'')]))
     = Inl (KeyError ''access_token'')"
  by (simp add: cached_token_decode world_with_hash_def cache_key_example Let_def)

subsection \<open>C9: the request for a fresh token\<close>

text \<open>
  C9. \<open>fresh_token\<close> sends exactly one request, whatever the answer: a POST to the
  configured \<open>token_url\<close> whose JSON body is \<open>grant_type = client_credentials\<close> with
  the configured \<open>client_id\<close>, \<open>client_secret\<close> and \<open>audience\<close>, with redirects not
  allowed and with the configured timeout. The constructor sets the timeout to 5 when its
  keyword arguments hold none, and to the given value otherwise.
\<close>

theorem fresh_token_request:
  "http_log (snd (fresh_token c w)) =
     http_log w @
       [\<lparr>req_method = ''POST'', req_url = token_url c,
         req_json =
           [(''grant_type'', ''client_credentials''), (''client_id'', client_id c),
            (''client_secret'', client_secret c), (''audience'', TokenClient.audience c)],
         req_allow_redirects = False, req_timeout = timeout c\<rparr>]
   \<and> (map_of kwargs ''timeout'' = None \<longrightarrow>
        timeout (TokenClient_init cid secret url aud kwargs) = 5)
   \<and> (map_of kwargs ''timeout'' = Some v \<longrightarrow>
        timeout (TokenClient_init cid secret url aud kwargs) = v)"
proof -
  have "http_log (snd (fresh_token c w)) = http_log w @ [token_request c]"
    by (simp add: fresh_token_unfold cache_token_world split: sum.splits del: exec_cmd.simps)
  then show ?thesis
    by (simp add: token_request_def TokenClient_init_def)
qed

text \<open>The client \<open>client1\<close>, built without a timeout, and two other sets of keyword arguments.\<close>

theorem fresh_token_request_witness:
  "http_log (snd (fresh_token example_client (fresh_world (endpoint_answering 200 [] None)))) =
       [\<lparr>req_method = ''POST'', req_url = ''https://auth.example.com/oauth/token'',
         req_json =
           [(''grant_type'', ''client_credentials''), (''client_id'', ''client1''),
            (''client_secret'', ''s3cret''), (''audience'', ''svcA'')],
         req_allow_redirects = False, req_timeout = 5\<rparr>]
   \<and> timeout (TokenClient_init ''client1'' ''s3cret'' ''https://auth.example.com/oauth/token''
                ''svcA'' [(''retries'', 3)]) = 5
   \<and> timeout (TokenClient_init ''client1'' ''s3cret'' ''https://auth.example.com/oauth/token''
                ''svcA'' [(''timeout'', 30)]) = 30"
proof -
  let ?w = "fresh_world (endpoint_answering 200 [] None)"
  have l: "http_log ?w = []" by (simp add: fresh_world_def)
  have c: "token_url example_client = ''https://auth.example.com/oauth/token''"
    "client_id example_client = ''client1''" "client_secret example_client = ''s3cret''"
    "TokenClient.audience example_client = ''svcA''"
    by (simp_all add: example_client_def TokenClient_init_def)
  have k: "map_of [(''retries'', 3::int)] ''timeout'' = None"
          "map_of [(''timeout'', 30::int)] ''timeout'' = Some 30"
          "map_of ([] :: (string \<times> int) list) ''timeout'' = None"
    by simp_all
  have t: "timeout example_client = 5"
    using fresh_token_request [of _ _ "[]"] k(3) by (simp add: example_client_def)
  show ?thesis
    using fresh_token_request [of example_client ?w "[(''retries'', 3)]"
            "''client1''" "''s3cret''" "''https://auth.example.com/oauth/token''" "''svcA''"]
          fresh_token_request [of example_client ?w "[(''timeout'', 30)]"
            "''client1''" "''s3cret''" "''https://auth.example.com/oauth/token''" "''svcA''" 30]
          k l c t
    by simp
qed

subsection \<open>C10: a field missing in the cache\<close>

text \<open>
  C10. When the store returns a non-empty field map that lacks one of the four fields,
  \<open>cached_token\<close> fails and does not report a miss. The error is the \<open>KeyError\<close> of the
  first missing field in the order \<open>access_token\<close>, \<open>expires_in\<close>, \<open>token_type\<close>,
  \<open>audience\<close>, except that an \<open>expires_in\<close> that is present and not parseable gives
  \<open>ValueError\<close> before the two later fields are looked up.
\<close>

theorem cached_token_missing_field:
  assumes "fst (hgetall (cache_key c) w) = values"
    and "values \<noteq> []"
    and "map_of values ''access_token'' = None \<or> map_of values ''expires_in'' = None
         \<or> map_of values ''token_type'' = None \<or> map_of values ''audience'' = None"
  shows "fst (cached_token c w) =
           (if map_of values ''access_token'' = None then Inl (KeyError ''access_token'')
            else if map_of values ''expires_in'' = None then Inl (KeyError ''expires_in'')
            else if int_of_str (the (map_of values ''expires_in'')) = None then Inl ValueError
            else if map_of values ''token_type'' = None then Inl (KeyError ''token_type'')
            else Inl (KeyError ''audience''))"
proof -
  have v: "(case redis w (cache_key c) of None \<Rightarrow> [] | Some e \<Rightarrow> hash_fields e) = values"
    using assms(1) by (simp add: hgetall_def)
  show ?thesis
    using assms(2,3)
    by (auto simp: cached_token_decode v Let_def split: option.splits)
qed

text \<open>A map without \<open>token_type\<close>.\<close>

theorem cached_token_missing_field_witness:
  "fst (cached_token example_client
          (world_with_hash ''oauth_token_cache__client1_svcA''
             [(''access_token'', ''abc''), (''expires_in'', ''3600''), (''audience'', ''svcA'')]))
     = Inl (KeyError ''token_type'')"
proof -
  let ?h = "[(''access_token'', ''abc''), (''expires_in'', ''3600''), (''audience'', ''svcA'')]"
  let ?w = "world_with_hash ''oauth_token_cache__client1_svcA'' ?h"
  have 1: "fst (hgetall (cache_key example_client) ?w) = ?h"
    by (simp add: hgetall_def world_with_hash_def cache_key_example)
  have 2: "?h \<noteq> []" by simp
  have 3: "map_of ?h ''access_token'' = None \<or> map_of ?h ''expires_in'' = None
         \<or> map_of ?h ''token_type'' = None \<or> map_of ?h ''audience'' = None" by simp
  have 4: "int_of_str ''3600'' = Some 3600"
    by (simp add: int_of_str_def strip_def split_sign_def is_space_def is_digit_def
          digits_value_def digit_value_def)
  show ?thesis using cached_token_missing_field [OF 1 2 3] 4 by simp
qed

text \<open>
  The claim as stated, a lookup error for every non-empty map that lacks a field, fails at
  a map without \<open>token_type\<close> and \<open>audience\<close> whose \<open>expires_in\<close> is the word \<open>soon\<close>.
\<close>

theorem cached_token_missing_field_counterexample:
  "fst (cached_token example_client
          (world_with_hash ''oauth_token_cache__client1_svcA''
             [(''access_token'', ''abc''), (''expires_in'', ''soon'')]))
     = Inl ValueError"
  by (simp add: cached_token_decode world_with_hash_def cache_key_example Let_def
        int_of_str_def strip_def split_sign_def is_space_def is_digit_def)

end
